theory Spec2Isabelle
  imports Complex_Main "HOL-Library.Sublist"
begin

section \<open>Data model (src/types.ts and the state of src/App.tsx)\<close>

text \<open>
  The component \<open>App\<close> of src/App.tsx keeps its state in React state cells and refs and
  reacts to events: button clicks, callbacks of the live session, timers and audio
  callbacks. Each handler is embedded as a function from the application state to the
  application state. Effects on the browser (messages sent on the channel, timers,
  playback nodes, local storage, sounds) are fields of the same state, so that a claim
  about what was sent or armed is a claim about a field.

  Conventions of the embedding:
  \<^item> strings are byte lists (UTF-8); numbers that hold times in milliseconds are \<open>int\<close>,
    audio times, durations and gains are \<open>real\<close> (the rounding of IEEE doubles is not
    modelled);
  \<^item> a handler runs atomically: the points where the source awaits a promise are not
    interleaving points, and every read of \<open>Date.now()\<close> or of the audio clock inside
    one handler invocation returns the value given in its \<open>env\<close>;
  \<^item> function calls of the remote service are typed by the tool manifest \<open>TOOLS\<close>;
  \<^item> functions of the platform or of files that are not part of the sources
    (\<open>createAudioBlob\<close>, the date codec of \<open>Date\<close>, number formatting of non-integers)
    are parameters, collected in the record \<open>platform\<close>.
\<close>

datatype ConnectionState = DISCONNECTED | CONNECTING | CONNECTED | ERROR

datatype sender = user | jarvis

record MessageLog =
  log_id :: string
  log_sender :: sender
  log_text :: string
  timestamp :: int
  isReport :: "bool option"

text \<open>An entry as \<open>JSON.stringify\<close> writes it: the \<open>Date\<close> becomes its ISO string.\<close>

record stored_log =
  s_id :: string
  s_sender :: sender
  s_text :: string
  s_timestamp :: string
  s_isReport :: "bool option"

text \<open>
  The value under the key \<open>jarvis_logs\<close>, as \<open>JSON.parse\<close> reads it: no value, a text
  that does not parse to an array (the \<open>catch\<close> of the initialiser), or an array of
  entries.
\<close>

datatype stored = Absent | Unparseable | Parsed "stored_log list"

text \<open>A function call of a tool-call message, typed by the manifest \<open>TOOLS\<close>.\<close>

datatype functionCall =
    set_camera (fc_id: string) (enable: bool)
  | set_volume (fc_id: string) (level: real)
  | create_report (fc_id: string) (title: string) (content: string)
  | other_call (fc_id: string) (other_name: string)

fun fc_name :: "functionCall \<Rightarrow> string" where
  "fc_name (set_camera i b) = ''set_camera''"
| "fc_name (set_volume i l) = ''set_volume''"
| "fc_name (create_report i t c) = ''create_report''"
| "fc_name (other_call i n) = n"

fun is_create_report :: "functionCall \<Rightarrow> bool" where
  "is_create_report (create_report i t c) = True"
| "is_create_report fc = False"

record functionResponse =
  fr_id :: string
  fr_name :: string
  fr_result :: string

datatype outbound =
    RealtimeAudio string
  | RealtimeImage string
  | ToolResponse "functionResponse list"

record PendingReport =
  pr_id :: string
  pr_title :: string
  pr_content :: string

text \<open>
  The values of React state a handler reads through its lexical scope. Every render
  of \<open>App\<close> creates new handler functions over the state of that render; a callback
  installed by \<open>connectToGemini\<close> keeps the scope of the render whose
  \<open>connectToGemini\<close> was called.
\<close>

record closure =
  cl_isMuted :: bool
  cl_isVideoEnabled :: bool

datatype timer_callback = ReconnectCb closure | SpeakingOffCb | SendFrameCb

datatype timer = Timeout nat timer_callback | Interval nat timer_callback

fun timer_callback_of :: "timer \<Rightarrow> timer_callback" where
  "timer_callback_of (Timeout d c) = c"
| "timer_callback_of (Interval d c) = c"

fun timer_delay :: "timer \<Rightarrow> nat" where
  "timer_delay (Timeout d c) = d"
| "timer_delay (Interval d c) = d"

fun is_reconnect :: "timer \<Rightarrow> bool" where
  "is_reconnect (Timeout d (ReconnectCb c)) = True"
| "is_reconnect t = False"

datatype sound = snd_connect | snd_disconnect | snd_error | snd_mute | snd_unmute

record playback =
  pb_handle :: nat
  pb_start :: real
  pb_duration :: real
  pb_gain :: real

record message =
  toolCall :: "functionCall list option"
  outputTranscription :: "string option"
  inputTranscription :: "string option"
  turnComplete :: bool
  inlineAudio :: "(string \<times> real) option"
  interrupted :: bool

text \<open>
  What one handler invocation reads from outside: the wall clock, the clock of the
  output audio context, whether the camera and the microphone are granted, the
  credential in the process configuration, and the frame the canvas delivers.
  \<open>inlineAudio\<close> of a message carries the base64 text and the duration of the buffer
  that \<open>decodeAudioData\<close> makes of it.
\<close>

record env =
  now :: int
  clock :: real
  cameraOk :: bool
  micOk :: bool
  apiKey :: "string option"
  frame :: "string option"

record platform =
  createAudioBlob :: "real list \<Rightarrow> string"
  toISOString :: "int \<Rightarrow> string"
  DateParse :: "string \<Rightarrow> int"
  numberFormat :: "real \<Rightarrow> string"
  JSON_stringify_args :: "functionCall \<Rightarrow> string"

record app =
  connectionState :: ConnectionState
  isMuted :: bool
  isVideoEnabled :: bool
  volume :: real
  logs :: "MessageLog list"
  isSpeaking :: bool
  errorMsg :: "string option"
  pendingReport :: "PendingReport option"
  editedTitle :: string
  inputAudioContextRef :: bool
  outputAudioContextRef :: bool
  sessionPromiseRef :: "nat option"
  nextStartTimeRef :: real
  sourcesRef :: "nat list"
  frameIntervalRef :: "nat option"
  mediaStreamRef :: bool
  volumeRef :: real
  isManuallyDisconnectedRef :: bool
  reconnectTimeoutRef :: "nat option"
  currentInputTranscription :: string
  currentOutputTranscription :: string
  lastProcessedCommandRef :: int
  videoSrcObject :: bool
  localStorage :: stored
  timers :: "(nat \<times> timer) list"
  nextTimerId :: nat
  processors :: "closure list"
  sent :: "outbound list"
  started :: "playback list"
  stopped :: "nat list"
  sounds :: "sound list"
  nextSourceId :: nat
  liveConnects :: nat
  micRequests :: nat
  closedSessions :: "nat list"

definition RECONNECT_DELAY :: nat where
  "RECONNECT_DELAY = 30000"

section \<open>Strings and numbers of the platform\<close>

definition digit_char :: "nat \<Rightarrow> char" where
  "digit_char d = ''0123456789'' ! d"

function show_nat :: "nat \<Rightarrow> string" where
  "show_nat n = (if n < 10 then [digit_char n] else show_nat (n div 10) @ [digit_char (n mod 10)])"
  by pat_completeness auto
termination
  by (relation "measure id") auto

declare show_nat.simps [simp del]

definition show_int :: "int \<Rightarrow> string" where
  "show_int i = (if i < 0 then CHR ''-'' # show_nat (nat (- i)) else show_nat (nat i))"

text \<open>
  Number to string, as a template literal converts it: an integer below \<open>10^21\<close> in
  absolute value prints its decimal digits; every other number is formatted by the
  platform.
\<close>

definition Number_toString :: "platform \<Rightarrow> real \<Rightarrow> string" where
  "Number_toString P x =
     (if x = of_int \<lfloor>x\<rfloor> \<and> \<bar>x\<bar> < 10 ^ 21 then show_int \<lfloor>x\<rfloor> else numberFormat P x)"

fun join_with :: "string \<Rightarrow> string list \<Rightarrow> string" where
  "join_with sep [] = []"
| "join_with sep [x] = x"
| "join_with sep (x # y # ys) = x @ sep @ join_with sep (y # ys)"

text \<open>
  \<open>toLowerCase\<close>, \<open>includes\<close> and \<open>trim\<close> on byte strings: the letters A to Z are
  lowered and the ASCII white space is trimmed; the phrases searched for are ASCII.
\<close>

definition lower_char :: "char \<Rightarrow> char" where
  "lower_char c =
     (case map_of (zip ''ABCDEFGHIJKLMNOPQRSTUVWXYZ'' ''abcdefghijklmnopqrstuvwxyz'') c of
        Some d \<Rightarrow> d
      | None \<Rightarrow> c)"

definition toLowerCase :: "string \<Rightarrow> string" where
  "toLowerCase t = map lower_char t"

fun js_includes :: "string \<Rightarrow> string \<Rightarrow> bool" where
  "js_includes [] p = (p = [])"
| "js_includes (c # cs) p = (prefix p (c # cs) \<or> js_includes cs p)"

definition is_space :: "char \<Rightarrow> bool" where
  "is_space c = (c \<in> set [CHR '' '', CHR 0x09, CHR 0x0A, CHR 0x0B, CHR 0x0C, CHR 0x0D])"

definition trim :: "string \<Rightarrow> string" where
  "trim t = rev (dropWhile is_space (rev (dropWhile is_space t)))"

section \<open>Primitives: sounds, timers, the log and its persistence\<close>

definition playSystemSound :: "sound \<Rightarrow> app \<Rightarrow> app" where
  "playSystemSound k s = s\<lparr>sounds := sounds s @ [k]\<rparr>"

text \<open>
  \<open>setTimeout\<close> and \<open>setInterval\<close> hand out fresh positive identifiers; the identifier
  of \<open>setTimer t s\<close> is \<open>nextTimerId s\<close>. \<open>clearTimeout\<close> and \<open>clearInterval\<close> are guarded
  in the source by the truthiness of the ref, which for a positive identifier is its
  presence.
\<close>

definition setTimer :: "timer \<Rightarrow> app \<Rightarrow> app" where
  "setTimer t s = s\<lparr>timers := timers s @ [(nextTimerId s, t)], nextTimerId := Suc (nextTimerId s)\<rparr>"

definition clearTimer :: "nat option \<Rightarrow> app \<Rightarrow> app" where
  "clearTimer r s =
     (case r of None \<Rightarrow> s | Some i \<Rightarrow> s\<lparr>timers := filter (\<lambda>p. fst p \<noteq> i) (timers s)\<rparr>)"

definition storeLog :: "platform \<Rightarrow> MessageLog \<Rightarrow> stored_log" where
  "storeLog P l =
     \<lparr>s_id = log_id l, s_sender = log_sender l, s_text = log_text l,
      s_timestamp = toISOString P (timestamp l), s_isReport = isReport l\<rparr>"

definition loadLog :: "platform \<Rightarrow> stored_log \<Rightarrow> MessageLog" where
  "loadLog P r =
     \<lparr>log_id = s_id r, log_sender = s_sender r, log_text = s_text r,
      timestamp = DateParse P (s_timestamp r), isReport = s_isReport r\<rparr>"

text \<open>The initialiser of the \<open>logs\<close> state (App.tsx, lines 116 to 129).\<close>

definition loadLogs :: "platform \<Rightarrow> stored \<Rightarrow> MessageLog list" where
  "loadLogs P st = (case st of Absent \<Rightarrow> [] | Unparseable \<Rightarrow> [] | Parsed rs \<Rightarrow> map (loadLog P) rs)"

text \<open>
  \<open>setLogs(prev => [...prev, ...entries])\<close> followed by the effect on \<open>[logs]\<close>
  (lines 164 to 166), which writes the whole array under the key.
\<close>

definition appendLogs :: "platform \<Rightarrow> MessageLog list \<Rightarrow> app \<Rightarrow> app" where
  "appendLogs P es s =
     s\<lparr>logs := logs s @ es, localStorage := Parsed (map (storeLog P) (logs s @ es))\<rparr>"

definition sysLog :: "env \<Rightarrow> string \<Rightarrow> MessageLog" where
  "sysLog e t =
     \<lparr>log_id = show_int (now e) @ ''sys'', log_sender = jarvis, log_text = t,
      timestamp = now e, isReport = None\<rparr>"

text \<open>\<open>sessionPromiseRef.current?.then(session => session.send...(m))\<close>\<close>

definition sendToSession :: "outbound \<Rightarrow> app \<Rightarrow> app" where
  "sendToSession m s = (case sessionPromiseRef s of None \<Rightarrow> s | Some h \<Rightarrow> s\<lparr>sent := sent s @ [m]\<rparr>)"

text \<open>\<open>setVolume\<close> and the effect on \<open>[volume]\<close> that copies it into \<open>volumeRef\<close>.\<close>

definition setVolume :: "real \<Rightarrow> app \<Rightarrow> app" where
  "setVolume v s = s\<lparr>volume := v, volumeRef := v\<rparr>"

section \<open>Video capture\<close>

definition startVideo :: "platform \<Rightarrow> env \<Rightarrow> app \<Rightarrow> app" where
  "startVideo P e s =
     (if cameraOk e then
        (setTimer (Interval 1000 SendFrameCb) (s\<lparr>videoSrcObject := True, isVideoEnabled := True\<rparr>))
          \<lparr>frameIntervalRef := Some (nextTimerId s)\<rparr>
      else appendLogs P [sysLog e ''Camera access denied or unavailable.''] (s\<lparr>isVideoEnabled := False\<rparr>))"

definition stopVideo :: "app \<Rightarrow> app" where
  "stopVideo s =
     (let s1 = s\<lparr>videoSrcObject := False\<rparr>;
          s2 = (case frameIntervalRef s1 of None \<Rightarrow> s1
                | Some i \<Rightarrow> (clearTimer (Some i) s1)\<lparr>frameIntervalRef := None\<rparr>)
      in s2\<lparr>isVideoEnabled := False\<rparr>)"

definition sendVideoFrame :: "env \<Rightarrow> app \<Rightarrow> app" where
  "sendVideoFrame e s =
     (if sessionPromiseRef s = None then s
      else (case frame e of None \<Rightarrow> s | Some d \<Rightarrow> sendToSession (RealtimeImage d) s))"

section \<open>Tool-call dispatcher (App.tsx, lines 308 to 362)\<close>

text \<open>
  The body of the \<open>try\<close> for one call that is not \<open>create_report\<close>: the result string
  and the state after the side effect. With calls typed by the manifest nothing in
  the \<open>try\<close> throws (\<open>startVideo\<close> catches its own failures), so the \<open>catch\<close> has no
  branch here.
\<close>

definition execCall :: "platform \<Rightarrow> env \<Rightarrow> functionCall \<Rightarrow> app \<Rightarrow> string \<times> app" where
  "execCall P e fc s =
     (case fc of
        set_camera i en \<Rightarrow>
          (if en then ''Camera enabled.'' else ''Camera disabled.'',
           if en then startVideo P e s else stopVideo s)
      | set_volume i lv \<Rightarrow>
          (''Volume set to '' @ Number_toString P lv @ ''%.'',
           setVolume (max 0 (min 100 lv) / 100) s)
      | create_report i t c \<Rightarrow> (''Function executed successfully.'', s)
      | other_call i n \<Rightarrow> (''Function executed successfully.'', s))"

fun toolLoop ::
  "platform \<Rightarrow> env \<Rightarrow> functionCall list \<Rightarrow> functionResponse list \<Rightarrow> app \<Rightarrow> functionResponse list \<times> app"
where
  "toolLoop P e [] rs s = (rs, s)"
| "toolLoop P e (fc # fcs) rs s =
     (if is_create_report fc then
        toolLoop P e fcs rs
          (s\<lparr>editedTitle := title fc,
             pendingReport := Some \<lparr>pr_id = fc_id fc, pr_title = title fc, pr_content = content fc\<rparr>\<rparr>)
      else
        toolLoop P e fcs
          (rs @ [\<lparr>fr_id = fc_id fc, fr_name = fc_name fc, fr_result = fst (execCall P e fc s)\<rparr>])
          (snd (execCall P e fc s)))"

definition toolLogText :: "platform \<Rightarrow> functionCall list \<Rightarrow> string" where
  "toolLogText P fcs =
     [CHR 0xE2, CHR 0x9A, CHR 0x99, CHR 0xEF, CHR 0xB8, CHR 0x8F] @ '' EXECUTING PROTOCOL: '' @
     join_with '', '' (map (\<lambda>fc. fc_name fc @ ''('' @ JSON_stringify_args P fc @ '')'') fcs)"

definition handleToolCall :: "platform \<Rightarrow> env \<Rightarrow> functionCall list \<Rightarrow> app \<Rightarrow> app" where
  "handleToolCall P e fcs s =
     (let s1 = appendLogs P [sysLog e (toolLogText P fcs)] s;
          r = toolLoop P e fcs [] s1
      in if fst r \<noteq> [] then sendToSession (ToolResponse (fst r)) (snd r) else snd r)"

section \<open>Mute, reconnect timer, connect and disconnect\<close>

definition toggleMute :: "app \<Rightarrow> app" where
  "toggleMute s =
     (playSystemSound (if isMuted s then snd_unmute else snd_mute) s)\<lparr>isMuted := \<not> isMuted s\<rparr>"

text \<open>
  \<open>disconnect\<close> (lines 484 to 511) is an \<open>async\<close> function: \<open>disconnect_begin\<close> is what
  runs before its first \<open>await\<close>, in the caller's turn (with no session handle the first
  \<open>await\<close> is the one of \<open>stopAudioContexts\<close>, after the tracks of the microphone stream
  are stopped); \<open>disconnect_finish\<close> is its continuation.
\<close>

definition disconnect_begin :: "app \<Rightarrow> app" where
  "disconnect_begin s =
     (let s1 = stopVideo (playSystemSound snd_disconnect
                 (clearTimer (reconnectTimeoutRef s) (s\<lparr>isManuallyDisconnectedRef := True\<rparr>)))
      in if sessionPromiseRef s1 = None then s1\<lparr>mediaStreamRef := False\<rparr> else s1)"

definition disconnect_finish :: "app \<Rightarrow> app" where
  "disconnect_finish s =
     (let s1 = (case sessionPromiseRef s of None \<Rightarrow> s
                | Some h \<Rightarrow> s\<lparr>closedSessions := closedSessions s @ [h], sessionPromiseRef := None\<rparr>)
      in s1\<lparr>mediaStreamRef := False, inputAudioContextRef := False, outputAudioContextRef := False,
            connectionState := DISCONNECTED, isSpeaking := False, isVideoEnabled := False\<rparr>)"

definition disconnect :: "app \<Rightarrow> app" where
  "disconnect s = disconnect_finish (disconnect_begin s)"

definition reconnectLogText :: string where
  "reconnectLogText =
     [CHR 0xE2, CHR 0x9A, CHR 0xA0, CHR 0xEF, CHR 0xB8, CHR 0x8F] @
     '' CONNECTION LOST. ATTEMPTING RECONNECT IN '' @ show_nat (RECONNECT_DELAY div 1000) @ '' SECONDS...''"

text \<open>App.tsx, lines 470 to 482. The callback of the timer keeps the scope \<open>cl\<close>.\<close>

definition scheduleReconnect :: "platform \<Rightarrow> env \<Rightarrow> closure \<Rightarrow> app \<Rightarrow> app" where
  "scheduleReconnect P e cl s =
     (let s1 = clearTimer (reconnectTimeoutRef s) s;
          s2 = appendLogs P [sysLog e reconnectLogText] s1
      in (setTimer (Timeout RECONNECT_DELAY (ReconnectCb cl)) s2)
           \<lparr>reconnectTimeoutRef := Some (nextTimerId s2)\<rparr>)"

definition initializeAudioContexts :: "app \<Rightarrow> app" where
  "initializeAudioContexts s = s\<lparr>inputAudioContextRef := True, outputAudioContextRef := True\<rparr>"

text \<open>The \<open>catch\<close> block of \<open>connectToGemini\<close> (lines 459 to 467).\<close>

definition connectFailed :: "platform \<Rightarrow> env \<Rightarrow> closure \<Rightarrow> string \<Rightarrow> app \<Rightarrow> app" where
  "connectFailed P e cl msg s =
     (let s1 = playSystemSound snd_error (s\<lparr>errorMsg := Some msg, connectionState := ERROR\<rparr>)
      in if \<not> isManuallyDisconnectedRef s1 then scheduleReconnect P e cl s1 else s1)"

text \<open>
  \<open>connectToGemini\<close> (lines 228 to 468) up to the assignment of \<open>sessionPromiseRef\<close>.
  \<open>micRequests\<close> counts the calls of \<open>getUserMedia\<close> for audio, \<open>liveConnects\<close> the calls
  of \<open>ai.live.connect\<close>; the handle of the new session is the value of the counter.
\<close>

definition connectToGemini :: "platform \<Rightarrow> env \<Rightarrow> bool \<Rightarrow> closure \<Rightarrow> app \<Rightarrow> app" where
  "connectToGemini P e isReconnect cl s =
     (let s1 = (if \<not> isReconnect then playSystemSound snd_connect (s\<lparr>isManuallyDisconnectedRef := False\<rparr>)
                else s);
          s2 = clearTimer (reconnectTimeoutRef s1) s1;
          s3 = initializeAudioContexts (s2\<lparr>errorMsg := None, connectionState := CONNECTING\<rparr>)
      in if apiKey e = None \<or> apiKey e = Some [] then
           connectFailed P e cl ''API Key not found in environment variables'' s3
         else if \<not> micOk e then
           connectFailed P e cl ''Microphone access denied. Please check permissions.''
             (s3\<lparr>micRequests := Suc (micRequests s3)\<rparr>)
         else
           s3\<lparr>micRequests := Suc (micRequests s3), mediaStreamRef := True,
              liveConnects := Suc (liveConnects s3), sessionPromiseRef := Some (liveConnects s3)\<rparr>)"

definition render :: "app \<Rightarrow> closure" where
  "render s = \<lparr>cl_isMuted = isMuted s, cl_isVideoEnabled = isVideoEnabled s\<rparr>"

definition toggleConnection :: "platform \<Rightarrow> env \<Rightarrow> app \<Rightarrow> app" where
  "toggleConnection P e s =
     (if connectionState s = CONNECTED \<or> connectionState s = CONNECTING then disconnect s
      else connectToGemini P e False (render s) s)"

definition toggleVideo :: "platform \<Rightarrow> env \<Rightarrow> app \<Rightarrow> app" where
  "toggleVideo P e s = (if isVideoEnabled s then stopVideo s else startVideo P e s)"

section \<open>Callbacks of the live session\<close>

definition onopen :: "closure \<Rightarrow> bool \<Rightarrow> app \<Rightarrow> app" where
  "onopen cl isReconnect s =
     (let s1 = s\<lparr>connectionState := CONNECTED\<rparr>;
          s2 = (if isReconnect then playSystemSound snd_connect s1 else s1)
      in if \<not> inputAudioContextRef s2 then s2 else s2\<lparr>processors := processors s2 @ [cl]\<rparr>)"

text \<open>\<open>scriptProcessor.onaudioprocess\<close> (lines 288 to 301): \<open>isMuted\<close> is read from the scope.\<close>

definition onaudioprocess :: "platform \<Rightarrow> closure \<Rightarrow> real list \<Rightarrow> app \<Rightarrow> app" where
  "onaudioprocess P cl chunk s =
     (if cl_isMuted cl then s else sendToSession (RealtimeAudio (createAudioBlob P chunk)) s)"

definition voiceCommandLog :: "env \<Rightarrow> string \<Rightarrow> MessageLog" where
  "voiceCommandLog e t =
     \<lparr>log_id = show_int (now e) @ ''cmd'', log_sender = user,
      log_text = ''[VOICE COMMAND]: '' @ t, timestamp = now e, isReport = None\<rparr>"

text \<open>The tail of \<open>checkLocalCommands\<close> when \<open>commandTriggered\<close> is set.\<close>

definition commandFired :: "platform \<Rightarrow> env \<Rightarrow> string \<Rightarrow> app \<Rightarrow> app" where
  "commandFired P e t s = appendLogs P [voiceCommandLog e t] (s\<lparr>lastProcessedCommandRef := now e\<rparr>)"

text \<open>
  \<open>checkLocalCommands\<close> (lines 195 to 226). \<open>startVideo\<close> is not awaited: its effects
  come after the rest of the function.
\<close>

definition checkLocalCommands :: "platform \<Rightarrow> env \<Rightarrow> closure \<Rightarrow> string \<Rightarrow> app \<Rightarrow> app" where
  "checkLocalCommands P e cl t s =
     (if now e - lastProcessedCommandRef s < 2000 then s
      else
        let lower = toLowerCase t in
        if js_includes lower ''toggle mute'' then commandFired P e t (toggleMute s)
        else if js_includes lower ''turn on camera'' \<or> js_includes lower ''enable camera'' then
          (if \<not> cl_isVideoEnabled cl then startVideo P e (commandFired P e t s) else commandFired P e t s)
        else if js_includes lower ''turn off camera'' \<or> js_includes lower ''disable camera'' then
          commandFired P e t (if cl_isVideoEnabled cl then stopVideo s else s)
        else if js_includes lower ''disconnect'' \<or> js_includes lower ''shut down''
                \<or> js_includes lower ''deactivate'' then
          commandFired P e t (disconnect_begin s)
        else s)"

definition handleTranscription :: "platform \<Rightarrow> env \<Rightarrow> closure \<Rightarrow> message \<Rightarrow> app \<Rightarrow> app" where
  "handleTranscription P e cl m s =
     (case outputTranscription m of
        Some t \<Rightarrow> s\<lparr>currentOutputTranscription := currentOutputTranscription s @ t\<rparr>
      | None \<Rightarrow>
          (case inputTranscription m of
             Some t \<Rightarrow>
               checkLocalCommands P e cl (currentInputTranscription s @ t)
                 (s\<lparr>currentInputTranscription := currentInputTranscription s @ t\<rparr>)
           | None \<Rightarrow> s))"

definition turnLog :: "env \<Rightarrow> string \<Rightarrow> sender \<Rightarrow> string \<Rightarrow> MessageLog" where
  "turnLog e sfx who t =
     \<lparr>log_id = show_int (now e) @ sfx, log_sender = who, log_text = t,
      timestamp = now e, isReport = None\<rparr>"

definition handleTurnComplete :: "platform \<Rightarrow> env \<Rightarrow> app \<Rightarrow> app" where
  "handleTurnComplete P e s =
     (let userText = trim (currentInputTranscription s);
          modelText = trim (currentOutputTranscription s);
          s1 = (if userText \<noteq> [] \<or> modelText \<noteq> [] then
                  appendLogs P
                    ((if userText \<noteq> [] then [turnLog e ''u'' user userText] else []) @
                     (if modelText \<noteq> [] then [turnLog e ''m'' jarvis modelText] else [])) s
                else s)
      in s1\<lparr>currentInputTranscription := [], currentOutputTranscription := [], isSpeaking := False\<rparr>)"

text \<open>
  Inline audio (lines 392 to 426): \<open>clk\<close> is \<open>currentTime\<close> of the output context,
  \<open>dur\<close> the duration of the decoded buffer. \<open>started\<close> records every
  \<open>source.start(nextStartTimeRef.current)\<close> with the gain of its gain node.
\<close>

definition playAudio :: "real \<Rightarrow> real \<Rightarrow> app \<Rightarrow> app" where
  "playAudio clk dur s =
     (let t = max (nextStartTimeRef s) clk
      in s\<lparr>isSpeaking := True,
           nextStartTimeRef := t + dur,
           started := started s @
             [\<lparr>pb_handle = nextSourceId s, pb_start = t, pb_duration = dur, pb_gain = volumeRef s\<rparr>],
           sourcesRef := sourcesRef s @ [nextSourceId s],
           nextSourceId := Suc (nextSourceId s)\<rparr>)"

definition handleAudio :: "env \<Rightarrow> message \<Rightarrow> app \<Rightarrow> app" where
  "handleAudio e m s =
     (case inlineAudio m of
        None \<Rightarrow> s
      | Some a \<Rightarrow> if fst a \<noteq> [] \<and> outputAudioContextRef s then playAudio (clock e) (snd a) s else s)"

text \<open>The \<open>interrupted\<close> branch (lines 428 to 435); \<open>stopped\<close> records every \<open>src.stop()\<close>.\<close>

definition handleInterrupted :: "app \<Rightarrow> app" where
  "handleInterrupted s =
     s\<lparr>stopped := stopped s @ sourcesRef s, sourcesRef := [], nextStartTimeRef := 0,
       isSpeaking := False, currentOutputTranscription := []\<rparr>"

definition onmessage :: "platform \<Rightarrow> env \<Rightarrow> closure \<Rightarrow> message \<Rightarrow> app \<Rightarrow> app" where
  "onmessage P e cl m s =
     (let s1 = (case toolCall m of None \<Rightarrow> s | Some fcs \<Rightarrow> handleToolCall P e fcs s);
          s2 = handleTranscription P e cl m s1;
          s3 = (if turnComplete m then handleTurnComplete P e s2 else s2);
          s4 = handleAudio e m s3
      in if interrupted m then handleInterrupted s4 else s4)"

text \<open>The listener for \<open>ended\<close> of a playback source (lines 416 to 421).\<close>

definition sourceEnded :: "nat \<Rightarrow> app \<Rightarrow> app" where
  "sourceEnded h s =
     (let s1 = s\<lparr>sourcesRef := removeAll h (sourcesRef s)\<rparr>
      in if sourcesRef s1 = [] then setTimer (Timeout 200 SpeakingOffCb) s1 else s1)"

definition onclose :: "platform \<Rightarrow> env \<Rightarrow> closure \<Rightarrow> app \<Rightarrow> app" where
  "onclose P e cl s =
     (let s1 = (if \<not> isManuallyDisconnectedRef s then
                  scheduleReconnect P e cl (playSystemSound snd_disconnect s)
                else s)
      in s1\<lparr>connectionState := DISCONNECTED\<rparr>)"

definition sessionErrorText :: "string option \<Rightarrow> string" where
  "sessionErrorText msg =
     (case msg of
        None \<Rightarrow> ''Connection lost. J.A.R.V.I.S. is currently unavailable.''
      | Some t \<Rightarrow> if t = [] then ''Connection lost. J.A.R.V.I.S. is currently unavailable.'' else t)"

text \<open>\<open>onerror\<close> (lines 445 to 453).\<close>

definition onerror :: "platform \<Rightarrow> env \<Rightarrow> closure \<Rightarrow> string option \<Rightarrow> app \<Rightarrow> app" where
  "onerror P e cl msg s =
     (let s1 = playSystemSound snd_error
                 (s\<lparr>errorMsg := Some (sessionErrorText msg), connectionState := ERROR\<rparr>)
      in if \<not> isManuallyDisconnectedRef s1 then scheduleReconnect P e cl s1 else s1)"

section \<open>Report confirmation (lines 603 to 644)\<close>

definition reportLog :: "env \<Rightarrow> string \<Rightarrow> string \<Rightarrow> MessageLog" where
  "reportLog e ttl body =
     \<lparr>log_id = show_int (now e) @ ''r'', log_sender = jarvis,
      log_text = ttl @ [CHR 0x0A, CHR 0x0A] @ body, timestamp = now e, isReport = Some True\<rparr>"

definition handleConfirmReport :: "platform \<Rightarrow> env \<Rightarrow> app \<Rightarrow> app" where
  "handleConfirmReport P e s =
     (case pendingReport s of
        None \<Rightarrow> s
      | Some r \<Rightarrow>
          (sendToSession
             (ToolResponse
                [\<lparr>fr_id = pr_id r, fr_name = ''create_report'',
                  fr_result = ''Report '' @ [CHR 0x22] @ editedTitle s @ [CHR 0x22] @
                              '' generated successfully.''\<rparr>])
             (appendLogs P [reportLog e (editedTitle s) (pr_content r)] s))
            \<lparr>pendingReport := None\<rparr>)"

definition handleCancelReport :: "app \<Rightarrow> app" where
  "handleCancelReport s =
     (case pendingReport s of
        None \<Rightarrow> s
      | Some r \<Rightarrow>
          sendToSession
            (ToolResponse
               [\<lparr>fr_id = pr_id r, fr_name = ''create_report'',
                 fr_result = ''User cancelled the report generation.''\<rparr>]) s)
       \<lparr>pendingReport := None\<rparr>"

section \<open>Timers and the event loop\<close>

definition runCallback :: "platform \<Rightarrow> env \<Rightarrow> timer_callback \<Rightarrow> app \<Rightarrow> app" where
  "runCallback P e c s =
     (case c of
        ReconnectCb cl \<Rightarrow> connectToGemini P e True cl s
      | SpeakingOffCb \<Rightarrow> s\<lparr>isSpeaking := False\<rparr>
      | SendFrameCb \<Rightarrow> sendVideoFrame e s)"

text \<open>
  The browser fires the outstanding timer \<open>i\<close>: a timeout leaves the table before its
  callback runs, an interval stays. A timer that is not outstanding does not fire.
\<close>

definition fireTimer :: "platform \<Rightarrow> env \<Rightarrow> nat \<Rightarrow> app \<Rightarrow> app" where
  "fireTimer P e i s =
     (case map_of (timers s) i of
        None \<Rightarrow> s
      | Some (Timeout d c) \<Rightarrow> runCallback P e c (clearTimer (Some i) s)
      | Some (Interval d c) \<Rightarrow> runCallback P e c s)"

text \<open>The state after the first render, for the value \<open>st\<close> found in local storage.\<close>

definition initialApp :: "platform \<Rightarrow> stored \<Rightarrow> app" where
  "initialApp P st =
     \<lparr>connectionState = DISCONNECTED, isMuted = False, isVideoEnabled = False, volume = 1,
      logs = loadLogs P st, isSpeaking = False, errorMsg = None, pendingReport = None,
      editedTitle = [], inputAudioContextRef = False, outputAudioContextRef = False,
      sessionPromiseRef = None, nextStartTimeRef = 0, sourcesRef = [], frameIntervalRef = None,
      mediaStreamRef = False, volumeRef = 1, isManuallyDisconnectedRef = False,
      reconnectTimeoutRef = None, currentInputTranscription = [], currentOutputTranscription = [],
      lastProcessedCommandRef = 0, videoSrcObject = False,
      localStorage = Parsed (map (storeLog P) (loadLogs P st)),
      timers = [], nextTimerId = 1, processors = [], sent = [], started = [], stopped = [],
      sounds = [], nextSourceId = 0, liveConnects = 0, micRequests = 0, closedSessions = []\<rparr>"

datatype event =
    ToggleConnection env
  | ToggleMute
  | ToggleVideo env
  | SetVolumeSlider real
  | SetEditedTitle string
  | ConfirmReport env
  | CancelReport
  | OnOpen closure bool
  | OnMessage closure message env
  | OnClose closure env
  | OnError closure "string option" env
  | AudioProcess closure "real list"
  | SourceEnded nat
  | TimerFired nat env
  | DisconnectContinues

fun step :: "platform \<Rightarrow> app \<Rightarrow> event \<Rightarrow> app" where
  "step P s (ToggleConnection e) = toggleConnection P e s"
| "step P s ToggleMute = toggleMute s"
| "step P s (ToggleVideo e) = toggleVideo P e s"
| "step P s (SetVolumeSlider v) = setVolume v s"
| "step P s (SetEditedTitle t) = s\<lparr>editedTitle := t\<rparr>"
| "step P s (ConfirmReport e) = handleConfirmReport P e s"
| "step P s CancelReport = handleCancelReport s"
| "step P s (OnOpen cl r) = onopen cl r s"
| "step P s (OnMessage cl m e) = onmessage P e cl m s"
| "step P s (OnClose cl e) = onclose P e cl s"
| "step P s (OnError cl msg e) = onerror P e cl msg s"
| "step P s (AudioProcess cl chunk) = onaudioprocess P cl chunk s"
| "step P s (SourceEnded h) = sourceEnded h s"
| "step P s (TimerFired i e) = fireTimer P e i s"
| "step P s DisconnectContinues = disconnect_finish s"

definition run :: "platform \<Rightarrow> event list \<Rightarrow> app \<Rightarrow> app" where
  "run P es s = foldl (step P) s es"

section \<open>Notions used to state the properties\<close>

text \<open>The clamp of the specification: \<open>x\<close> brought into the interval from \<open>lo\<close> to \<open>hi\<close>.\<close>

definition spec_clamp :: "real \<Rightarrow> real \<Rightarrow> real \<Rightarrow> real" where
  "spec_clamp x lo hi = (if x < lo then lo else if hi < x then hi else x)"









text \<open>The phrase table of \<open>checkLocalCommands\<close>.\<close>

definition voice_trigger :: "string \<Rightarrow> bool" where
  "voice_trigger t =
     (js_includes (toLowerCase t) ''toggle mute''
      \<or> js_includes (toLowerCase t) ''turn on camera'' \<or> js_includes (toLowerCase t) ''enable camera''
      \<or> js_includes (toLowerCase t) ''turn off camera'' \<or> js_includes (toLowerCase t) ''disable camera''
      \<or> js_includes (toLowerCase t) ''disconnect'' \<or> js_includes (toLowerCase t) ''shut down''
      \<or> js_includes (toLowerCase t) ''deactivate'')"

text \<open>The outstanding reconnect timers.\<close>

definition reconnect_timers :: "app \<Rightarrow> (nat \<times> timer) list" where
  "reconnect_timers s = filter (\<lambda>p. is_reconnect (snd p)) (timers s)"

text \<open>
  Timer identifiers are fresh and distinct, and a reconnect timer that is outstanding
  is the one \<open>reconnectTimeoutRef\<close> holds.
\<close>

definition timer_table_ok :: "(nat \<times> timer) list \<Rightarrow> nat \<Rightarrow> nat option \<Rightarrow> bool" where
  "timer_table_ok ts n r =
     (list_all (\<lambda>p. fst p < n) ts \<and> distinct (map fst ts)
      \<and> list_all (\<lambda>p. if is_reconnect (snd p) then r = Some (fst p) else True) ts)"

definition timer_inv :: "app \<Rightarrow> bool" where
  "timer_inv s = timer_table_ok (timers s) (nextTimerId s) (reconnectTimeoutRef s)"

text \<open>Local storage holds the serialisation of the whole log.\<close>

definition logs_persisted :: "platform \<Rightarrow> app \<Rightarrow> bool" where
  "logs_persisted P s = (localStorage s = Parsed (map (storeLog P) (logs s)))"



text \<open>Appending entries one at a time, each append persisting the whole array.\<close>

definition appendEach :: "platform \<Rightarrow> MessageLog list \<Rightarrow> app \<Rightarrow> app" where
  "appendEach P ls s = foldl (\<lambda>s l. appendLogs P [l] s) s ls"

subsection \<open>Sample values\<close>

definition read_nat :: "string \<Rightarrow> nat" where
  "read_nat t = foldl (\<lambda>a c. 10 * a + (of_char c - 48)) 0 t"

definition read_int :: "string \<Rightarrow> int" where
  "read_int t = (case t of [] \<Rightarrow> 0 | c # r \<Rightarrow> if c = CHR ''-'' then - int (read_nat r) else int (read_nat t))"

text \<open>
  A platform whose date codec writes the time value in decimal digits and reads it
  back; it stands for any codec that reads back what it writes.
\<close>

definition samplePlatform :: platform where
  "samplePlatform =
     \<lparr>createAudioBlob = (\<lambda>xs. show_nat (length xs)), toISOString = show_int, DateParse = read_int,
      numberFormat = (\<lambda>x. ''NaN''), JSON_stringify_args = (\<lambda>fc. ''{}'')\<rparr>"

definition sampleEnv :: env where
  "sampleEnv =
     \<lparr>now = 1700000000000, clock = 0, cameraOk = True, micOk = True, apiKey = Some ''key'',
      frame = None\<rparr>"

definition sampleClosure :: closure where
  "sampleClosure = \<lparr>cl_isMuted = False, cl_isVideoEnabled = False\<rparr>"

text \<open>The state after the first render with nothing stored, with a session handle set.\<close>

definition sampleApp :: app where
  "sampleApp = (initialApp samplePlatform Absent)\<lparr>sessionPromiseRef := Some 0, outputAudioContextRef := True\<rparr>"

section \<open>Frame lemmas\<close>

lemmas prim_defs = playSystemSound_def setTimer_def clearTimer_def appendLogs_def sendToSession_def
  setVolume_def startVideo_def stopVideo_def toggleMute_def disconnect_begin_def commandFired_def

lemma sources_execCall [simp]: "sourcesRef (snd (execCall P e fc s)) = sourcesRef s"
  by (cases fc) (simp_all add: execCall_def prim_defs Let_def split: option.splits)

lemma sources_toolLoop [simp]: "sourcesRef (snd (toolLoop P e fcs rs s)) = sourcesRef s"
  by (induction fcs arbitrary: rs s) simp_all

lemma sources_handleToolCall [simp]: "sourcesRef (handleToolCall P e fcs s) = sourcesRef s"
  by (simp add: handleToolCall_def Let_def prim_defs split: option.splits)

lemma sources_checkLocalCommands [simp]: "sourcesRef (checkLocalCommands P e cl t s) = sourcesRef s"
  by (simp add: checkLocalCommands_def Let_def prim_defs split: option.splits)

lemma sources_handleTranscription [simp]: "sourcesRef (handleTranscription P e cl m s) = sourcesRef s"
  by (simp add: handleTranscription_def split: option.splits)

lemma sources_handleTurnComplete [simp]: "sourcesRef (handleTurnComplete P e s) = sourcesRef s"
  by (simp add: handleTurnComplete_def Let_def prim_defs)


lemma clamp_eq: "max 0 (min 100 lv) = spec_clamp lv 0 100"
  by (simp add: spec_clamp_def max_def min_def)

lemma execCall_volume:
  "execCall P e (set_volume i lv) s =
     (''Volume set to '' @ Number_toString P lv @ ''%.'', setVolume (spec_clamp lv 0 100 / 100) s)"
  by (simp add: execCall_def clamp_eq)


section \<open>Volume (claims C8 and C10)\<close>

text \<open>
  Claim C8. For every \<open>set_volume(level)\<close> tool call the applied gain is
  \<open>clamp(level, 0, 100) / 100\<close>: the body of the loop for the call leaves this value in
  \<open>volumeRef\<close>, and after a batch with the call the volume state, the \<open>volumeRef\<close> that
  playback reads and the gain of the next buffer that is started all have this value.
  For the level 150 the gain is 1, for the level -10 it is 0.
\<close>

theorem set_volume_applied_gain:
  "volumeRef (snd (execCall P e (set_volume i lv) s)) = spec_clamp lv 0 100 / 100
   \<and> volume (handleToolCall P e [set_volume i lv] s) = spec_clamp lv 0 100 / 100
   \<and> volumeRef (handleToolCall P e [set_volume i lv] s) = spec_clamp lv 0 100 / 100
   \<and> pb_gain (last (started (playAudio clk dur (handleToolCall P e [set_volume i lv] s))))
       = spec_clamp lv 0 100 / 100
   \<and> volumeRef (handleToolCall P e [set_volume i 150] s) = 1
   \<and> volumeRef (handleToolCall P e [set_volume i (- 10)] s) = 0"
  by (simp add: handleToolCall_def execCall_volume setVolume_def sendToSession_def appendLogs_def
      playAudio_def Let_def spec_clamp_def split: option.splits)

theorem set_volume_applied_gain_witness:
  "volumeRef (handleToolCall samplePlatform sampleEnv [set_volume ''c1'' 55] sampleApp) = 11 / 20
   \<and> volumeRef (handleToolCall samplePlatform sampleEnv [set_volume ''c1'' 150] sampleApp) = 1
   \<and> volumeRef (handleToolCall samplePlatform sampleEnv [set_volume ''c1'' (- 10)] sampleApp) = 0"
  using set_volume_applied_gain [of samplePlatform sampleEnv "''c1''" 55 sampleApp]
  by (simp add: spec_clamp_def)



section \<open>Interruption (claim C6)\<close>



section \<open>Playback scheduling (claim C5)\<close>


lemma playAudio_fields [simp]:
  "outputAudioContextRef (playAudio c d s) = outputAudioContextRef s"
  "nextStartTimeRef (playAudio c d s) = max (nextStartTimeRef s) c + d"
  "started (playAudio c d s) = started s @
     [\<lparr>pb_handle = nextSourceId s, pb_start = max (nextStartTimeRef s) c, pb_duration = d,
       pb_gain = volumeRef s\<rparr>]"
  by (simp_all add: playAudio_def Let_def)








lemma handleInterrupted_fields [simp]:
  "outputAudioContextRef (handleInterrupted s) = outputAudioContextRef s"
  "nextStartTimeRef (handleInterrupted s) = 0"
  "started (handleInterrupted s) = started s"
  by (simp_all add: handleInterrupted_def)




section \<open>Mute and the audio chunks (claim C3)\<close>

lemma connect_ok:
  "apiKey e = Some k \<Longrightarrow> k \<noteq> [] \<Longrightarrow> micOk e \<Longrightarrow> connectionState s = DISCONNECTED \<Longrightarrow>
   sessionPromiseRef (toggleConnection P e s) = Some (liveConnects s)
   \<and> isMuted (toggleConnection P e s) = isMuted s
   \<and> sent (toggleConnection P e s) = sent s
   \<and> inputAudioContextRef (toggleConnection P e s)"
  by (simp add: toggleConnection_def connectToGemini_def Let_def prim_defs initializeAudioContexts_def
      split: option.splits)

text \<open>
  Claim C3 fails on the code. The handler \<open>onaudioprocess\<close> reads \<open>isMuted\<close> from the
  scope of the render in which the connect button was clicked; toggling mute afterwards
  changes the state cell of a later render, which the installed handler never reads.
  So after: connect while not muted, channel open, mute toggled, a chunk that is
  processed while the mute state is set is encoded and forwarded.
\<close>

theorem audio_chunk_forwarded_while_muted:
  assumes "apiKey e = Some k" and "k \<noteq> []" and "micOk e"
    and "connectionState s = DISCONNECTED" and "\<not> isMuted s"
  shows "isMuted (toggleMute (onopen (render s) False (toggleConnection P e s)))
    \<and> connectionState (toggleMute (onopen (render s) False (toggleConnection P e s))) = CONNECTED
    \<and> last (processors (toggleMute (onopen (render s) False (toggleConnection P e s)))) = render s
    \<and> sent (onaudioprocess P (render s) chunk
              (toggleMute (onopen (render s) False (toggleConnection P e s))))
        = sent s @ [RealtimeAudio (createAudioBlob P chunk)]"
  using assms connect_ok [OF assms(1-4), of P]
  by (simp add: onaudioprocess_def sendToSession_def toggleMute_def onopen_def render_def
      playSystemSound_def Let_def)

theorem audio_chunk_forwarded_while_muted_witness:
  "isMuted (toggleMute (onopen (render (initialApp samplePlatform Absent)) False
       (toggleConnection samplePlatform sampleEnv (initialApp samplePlatform Absent))))
   \<and> sent (onaudioprocess samplePlatform (render (initialApp samplePlatform Absent)) [1 / 2, - 1 / 2]
       (toggleMute (onopen (render (initialApp samplePlatform Absent)) False
         (toggleConnection samplePlatform sampleEnv (initialApp samplePlatform Absent)))))
       = [RealtimeAudio ''2'']"
  using audio_chunk_forwarded_while_muted
    [of sampleEnv "''key''" "initialApp samplePlatform Absent" samplePlatform "[1 / 2, - 1 / 2]"]
  by (simp add: sampleEnv_def initialApp_def samplePlatform_def show_nat.simps digit_char_def)

section \<open>Missing credential (claim C4)\<close>

text \<open>
  Claim C4, as stated, fails: the \<open>catch\<close> block of \<open>connectToGemini\<close> handles the missing
  credential like every other failure and schedules a reconnect. After a connect
  without a credential from the first render, a reconnect timer of 30000 ms is
  outstanding.
\<close>

theorem missing_credential_counterexample:
  "timers (connectToGemini samplePlatform (sampleEnv\<lparr>apiKey := None\<rparr>) False sampleClosure
       (initialApp samplePlatform Absent)) = [(1, Timeout 30000 (ReconnectCb sampleClosure))]"
  by (simp add: connectToGemini_def connectFailed_def scheduleReconnect_def Let_def prim_defs
      initializeAudioContexts_def initialApp_def sampleEnv_def RECONNECT_DELAY_def)

text \<open>
  Claim C4, amended. If the credential is absent (or empty) when \<open>connectToGemini\<close> is
  invoked, the attempt ends in the state ERROR with the message
  \<open>API Key not found in environment variables\<close> and the error sound, before any request
  for the microphone and before any channel is opened (nothing is sent, no session
  handle is set). As for every failed attempt, a reconnect timer of 30000 ms is then
  armed, unless the attempt is itself a reconnect made while the manual-disconnect flag
  is set.
\<close>

theorem missing_credential:
  assumes "apiKey e = None \<or> apiKey e = Some []"
  shows "connectionState (connectToGemini P e r cl s) = ERROR
    \<and> errorMsg (connectToGemini P e r cl s) = Some ''API Key not found in environment variables''
    \<and> last (sounds (connectToGemini P e r cl s)) = snd_error
    \<and> micRequests (connectToGemini P e r cl s) = micRequests s
    \<and> liveConnects (connectToGemini P e r cl s) = liveConnects s
    \<and> sessionPromiseRef (connectToGemini P e r cl s) = sessionPromiseRef s
    \<and> sent (connectToGemini P e r cl s) = sent s
    \<and> (if r \<and> isManuallyDisconnectedRef s
        then timers (connectToGemini P e r cl s) = timers (clearTimer (reconnectTimeoutRef s) s)
        else timers (connectToGemini P e r cl s) =
               timers (clearTimer (reconnectTimeoutRef s) s)
                 @ [(nextTimerId s, Timeout 30000 (ReconnectCb cl))]
             \<and> reconnectTimeoutRef (connectToGemini P e r cl s) = Some (nextTimerId s))"
  using assms
  by (auto simp add: connectToGemini_def connectFailed_def scheduleReconnect_def Let_def prim_defs
      initializeAudioContexts_def RECONNECT_DELAY_def split: option.splits)

theorem missing_credential_witness:
  "connectionState (connectToGemini samplePlatform (sampleEnv\<lparr>apiKey := None\<rparr>) False sampleClosure
       (initialApp samplePlatform Absent)) = ERROR
   \<and> errorMsg (connectToGemini samplePlatform (sampleEnv\<lparr>apiKey := None\<rparr>) False sampleClosure
       (initialApp samplePlatform Absent)) = Some ''API Key not found in environment variables''
   \<and> micRequests (connectToGemini samplePlatform (sampleEnv\<lparr>apiKey := None\<rparr>) False sampleClosure
       (initialApp samplePlatform Absent)) = 0
   \<and> liveConnects (connectToGemini samplePlatform (sampleEnv\<lparr>apiKey := None\<rparr>) False sampleClosure
       (initialApp samplePlatform Absent)) = 0
   \<and> reconnectTimeoutRef (connectToGemini samplePlatform (sampleEnv\<lparr>apiKey := None\<rparr>) False
       sampleClosure (initialApp samplePlatform Absent)) = Some 1"
  using missing_credential
    [of "sampleEnv\<lparr>apiKey := None\<rparr>" samplePlatform False sampleClosure "initialApp samplePlatform Absent"]
  by (simp add: initialApp_def)

section \<open>Tool-call batches (claim C1)\<close>

lemma execCall_frame [simp]:
  "pendingReport (snd (execCall P e fc s)) = pendingReport s"
  "sessionPromiseRef (snd (execCall P e fc s)) = sessionPromiseRef s"
  "sent (snd (execCall P e fc s)) = sent s"
  by (cases fc; simp add: execCall_def prim_defs Let_def split: option.splits)+

lemma toolLoop_frame [simp]:
  "sessionPromiseRef (snd (toolLoop P e fcs rs s)) = sessionPromiseRef s"
  "sent (snd (toolLoop P e fcs rs s)) = sent s"
  by (induction fcs arbitrary: rs s; simp)+












section \<open>Invariants of the event loop\<close>

text \<open>
  Three facts hold along every run of events: the timer table is well formed
  (\<open>timer_inv\<close>), local storage holds the serialisation of the log (\<open>logs_persisted\<close>),
  and the time of the last voice command never decreases. They are shown for the
  primitives first, then for every handler, then for \<open>step\<close> and \<open>run\<close>.
\<close>

lemma tto_filter: "timer_table_ok ts n r \<Longrightarrow> timer_table_ok (filter Q ts) n r"
  by (auto simp add: timer_table_ok_def list_all_iff distinct_map_filter)

lemma tto_add:
  "timer_table_ok ts n r \<Longrightarrow> \<not> is_reconnect t \<Longrightarrow> timer_table_ok (ts @ [(n, t)]) (Suc n) r"
  by (fastforce simp add: timer_table_ok_def list_all_iff)

lemma tto_sched:
  "timer_table_ok ts n r \<Longrightarrow>
   timer_table_ok ((case r of None \<Rightarrow> ts | Some i \<Rightarrow> filter (\<lambda>p. fst p \<noteq> i) ts) @ [(n, t)]) (Suc n) (Some n)"
  by (cases r) (fastforce simp add: timer_table_ok_def list_all_iff distinct_map_filter)+

lemma timer_inv_upd [simp]:
  "timer_inv (connectionState_update f1 s) = timer_inv s"
  "timer_inv (isMuted_update f2 s) = timer_inv s"
  "timer_inv (isVideoEnabled_update f3 s) = timer_inv s"
  "timer_inv (volume_update f4 s) = timer_inv s"
  "timer_inv (logs_update f5 s) = timer_inv s"
  "timer_inv (isSpeaking_update f6 s) = timer_inv s"
  "timer_inv (errorMsg_update f7 s) = timer_inv s"
  "timer_inv (pendingReport_update f8 s) = timer_inv s"
  "timer_inv (editedTitle_update f9 s) = timer_inv s"
  "timer_inv (inputAudioContextRef_update g1 s) = timer_inv s"
  "timer_inv (outputAudioContextRef_update g2 s) = timer_inv s"
  "timer_inv (sessionPromiseRef_update g3 s) = timer_inv s"
  "timer_inv (nextStartTimeRef_update g4 s) = timer_inv s"
  "timer_inv (sourcesRef_update g5 s) = timer_inv s"
  "timer_inv (frameIntervalRef_update g6 s) = timer_inv s"
  "timer_inv (mediaStreamRef_update g7 s) = timer_inv s"
  "timer_inv (volumeRef_update g8 s) = timer_inv s"
  "timer_inv (isManuallyDisconnectedRef_update g9 s) = timer_inv s"
  "timer_inv (currentInputTranscription_update h1 s) = timer_inv s"
  "timer_inv (currentOutputTranscription_update h2 s) = timer_inv s"
  "timer_inv (lastProcessedCommandRef_update h3 s) = timer_inv s"
  "timer_inv (videoSrcObject_update h4 s) = timer_inv s"
  "timer_inv (localStorage_update h5 s) = timer_inv s"
  "timer_inv (processors_update h6 s) = timer_inv s"
  "timer_inv (sent_update h7 s) = timer_inv s"
  "timer_inv (started_update h8 s) = timer_inv s"
  "timer_inv (stopped_update h9 s) = timer_inv s"
  "timer_inv (sounds_update k1 s) = timer_inv s"
  "timer_inv (nextSourceId_update k2 s) = timer_inv s"
  "timer_inv (liveConnects_update k3 s) = timer_inv s"
  "timer_inv (micRequests_update k4 s) = timer_inv s"
  "timer_inv (closedSessions_update k5 s) = timer_inv s"
  by (simp_all add: timer_inv_def)

lemma logs_persisted_upd [simp]:
  "logs_persisted P (connectionState_update f1 s) = logs_persisted P s"
  "logs_persisted P (isMuted_update f2 s) = logs_persisted P s"
  "logs_persisted P (isVideoEnabled_update f3 s) = logs_persisted P s"
  "logs_persisted P (volume_update f4 s) = logs_persisted P s"
  "logs_persisted P (isSpeaking_update f6 s) = logs_persisted P s"
  "logs_persisted P (errorMsg_update f7 s) = logs_persisted P s"
  "logs_persisted P (pendingReport_update f8 s) = logs_persisted P s"
  "logs_persisted P (editedTitle_update f9 s) = logs_persisted P s"
  "logs_persisted P (inputAudioContextRef_update g1 s) = logs_persisted P s"
  "logs_persisted P (outputAudioContextRef_update g2 s) = logs_persisted P s"
  "logs_persisted P (sessionPromiseRef_update g3 s) = logs_persisted P s"
  "logs_persisted P (nextStartTimeRef_update g4 s) = logs_persisted P s"
  "logs_persisted P (sourcesRef_update g5 s) = logs_persisted P s"
  "logs_persisted P (frameIntervalRef_update g6 s) = logs_persisted P s"
  "logs_persisted P (mediaStreamRef_update g7 s) = logs_persisted P s"
  "logs_persisted P (volumeRef_update g8 s) = logs_persisted P s"
  "logs_persisted P (isManuallyDisconnectedRef_update g9 s) = logs_persisted P s"
  "logs_persisted P (reconnectTimeoutRef_update g0 s) = logs_persisted P s"
  "logs_persisted P (currentInputTranscription_update h1 s) = logs_persisted P s"
  "logs_persisted P (currentOutputTranscription_update h2 s) = logs_persisted P s"
  "logs_persisted P (lastProcessedCommandRef_update h3 s) = logs_persisted P s"
  "logs_persisted P (videoSrcObject_update h4 s) = logs_persisted P s"
  "logs_persisted P (timers_update h5 s) = logs_persisted P s"
  "logs_persisted P (nextTimerId_update h0 s) = logs_persisted P s"
  "logs_persisted P (processors_update h6 s) = logs_persisted P s"
  "logs_persisted P (sent_update h7 s) = logs_persisted P s"
  "logs_persisted P (started_update h8 s) = logs_persisted P s"
  "logs_persisted P (stopped_update h9 s) = logs_persisted P s"
  "logs_persisted P (sounds_update k1 s) = logs_persisted P s"
  "logs_persisted P (nextSourceId_update k2 s) = logs_persisted P s"
  "logs_persisted P (liveConnects_update k3 s) = logs_persisted P s"
  "logs_persisted P (micRequests_update k4 s) = logs_persisted P s"
  "logs_persisted P (closedSessions_update k5 s) = logs_persisted P s"
  by (simp_all add: logs_persisted_def)

lemma prim_timer_inv [simp]:
  "timer_inv (playSystemSound k s) = timer_inv s"
  "timer_inv (appendLogs P es s) = timer_inv s"
  "timer_inv (sendToSession m s) = timer_inv s"
  "timer_inv (setVolume v s) = timer_inv s"
  by (simp_all add: prim_defs split: option.splits)

lemma clearTimer_timer_inv [simp]: "timer_inv s \<Longrightarrow> timer_inv (clearTimer r s)"
  by (cases r) (simp_all add: clearTimer_def timer_inv_def tto_filter)

lemma setTimer_timer_inv [simp]: "timer_inv s \<Longrightarrow> \<not> is_reconnect t \<Longrightarrow> timer_inv (setTimer t s)"
  by (simp add: setTimer_def timer_inv_def tto_add)

lemma scheduleReconnect_timer_inv [simp]: "timer_inv s \<Longrightarrow> timer_inv (scheduleReconnect P e cl s)"
  using tto_sched [of "timers s" "nextTimerId s" "reconnectTimeoutRef s"
      "Timeout RECONNECT_DELAY (ReconnectCb cl)"]
  by (auto simp add: scheduleReconnect_def Let_def setTimer_def clearTimer_def appendLogs_def timer_inv_def
      split: option.splits)

lemma prim_logs_persisted [simp]:
  "logs_persisted P (playSystemSound k s) = logs_persisted P s"
  "logs_persisted P (sendToSession m s) = logs_persisted P s"
  "logs_persisted P (setVolume v s) = logs_persisted P s"
  "logs_persisted P (setTimer t s) = logs_persisted P s"
  "logs_persisted P (clearTimer r s) = logs_persisted P s"
  "logs_persisted P (appendLogs P es s)"
  by (simp_all add: prim_defs logs_persisted_def split: option.splits)

lemma prim_last [simp]:
  "lastProcessedCommandRef (playSystemSound k s) = lastProcessedCommandRef s"
  "lastProcessedCommandRef (sendToSession m s) = lastProcessedCommandRef s"
  "lastProcessedCommandRef (setVolume v s) = lastProcessedCommandRef s"
  "lastProcessedCommandRef (setTimer t s) = lastProcessedCommandRef s"
  "lastProcessedCommandRef (clearTimer r s) = lastProcessedCommandRef s"
  "lastProcessedCommandRef (appendLogs P es s) = lastProcessedCommandRef s"
  by (simp_all add: prim_defs split: option.splits)

lemma video_inv [simp]:
  "timer_inv s \<Longrightarrow> timer_inv (startVideo P e s)"
  "timer_inv s \<Longrightarrow> timer_inv (stopVideo s)"
  "logs_persisted P s \<Longrightarrow> logs_persisted P (startVideo P e s)"
  "logs_persisted P s \<Longrightarrow> logs_persisted P (stopVideo s)"
  "lastProcessedCommandRef (startVideo P e s) = lastProcessedCommandRef s"
  "lastProcessedCommandRef (stopVideo s) = lastProcessedCommandRef s"
  by (simp_all add: startVideo_def stopVideo_def Let_def split: option.splits)

lemma toggleMute_inv [simp]:
  "timer_inv (toggleMute s) = timer_inv s"
  "logs_persisted P (toggleMute s) = logs_persisted P s"
  "lastProcessedCommandRef (toggleMute s) = lastProcessedCommandRef s"
  by (simp_all add: toggleMute_def)

lemma disconnect_inv [simp]:
  "timer_inv s \<Longrightarrow> timer_inv (disconnect_begin s)"
  "timer_inv (disconnect_finish s) = timer_inv s"
  "logs_persisted P s \<Longrightarrow> logs_persisted P (disconnect_begin s)"
  "logs_persisted P (disconnect_finish s) = logs_persisted P s"
  "lastProcessedCommandRef (disconnect_begin s) = lastProcessedCommandRef s"
  "lastProcessedCommandRef (disconnect_finish s) = lastProcessedCommandRef s"
  by (simp_all add: disconnect_begin_def disconnect_finish_def Let_def split: option.splits)

lemma scheduleReconnect_inv [simp]:
  "logs_persisted P (scheduleReconnect P e cl s)"
  "lastProcessedCommandRef (scheduleReconnect P e cl s) = lastProcessedCommandRef s"
  by (simp_all add: scheduleReconnect_def Let_def)

lemma connect_inv [simp]:
  "timer_inv s \<Longrightarrow> timer_inv (connectFailed P e cl msg s)"
  "logs_persisted P s \<Longrightarrow> logs_persisted P (connectFailed P e cl msg s)"
  "lastProcessedCommandRef (connectFailed P e cl msg s) = lastProcessedCommandRef s"
  "timer_inv s \<Longrightarrow> timer_inv (connectToGemini P e r cl s)"
  "logs_persisted P s \<Longrightarrow> logs_persisted P (connectToGemini P e r cl s)"
  "lastProcessedCommandRef (connectToGemini P e r cl s) = lastProcessedCommandRef s"
  by (simp_all add: connectFailed_def connectToGemini_def initializeAudioContexts_def Let_def)


lemma ui_inv [simp]:
  "timer_inv s \<Longrightarrow> timer_inv (toggleConnection P e s)"
  "logs_persisted P s \<Longrightarrow> logs_persisted P (toggleConnection P e s)"
  "lastProcessedCommandRef (toggleConnection P e s) = lastProcessedCommandRef s"
  "timer_inv s \<Longrightarrow> timer_inv (toggleVideo P e s)"
  "logs_persisted P s \<Longrightarrow> logs_persisted P (toggleVideo P e s)"
  "lastProcessedCommandRef (toggleVideo P e s) = lastProcessedCommandRef s"
  "timer_inv (handleConfirmReport P e s) = timer_inv s"
  "logs_persisted P s \<Longrightarrow> logs_persisted P (handleConfirmReport P e s)"
  "lastProcessedCommandRef (handleConfirmReport P e s) = lastProcessedCommandRef s"
  "timer_inv (handleCancelReport s) = timer_inv s"
  "logs_persisted P (handleCancelReport s) = logs_persisted P s"
  "lastProcessedCommandRef (handleCancelReport s) = lastProcessedCommandRef s"
  by (simp_all add: toggleConnection_def disconnect_def toggleVideo_def handleConfirmReport_def
      handleCancelReport_def split: option.splits)

lemma session_inv [simp]:
  "timer_inv (onopen cl r s) = timer_inv s"
  "logs_persisted P (onopen cl r s) = logs_persisted P s"
  "lastProcessedCommandRef (onopen cl r s) = lastProcessedCommandRef s"
  "timer_inv s \<Longrightarrow> timer_inv (onclose P e cl s)"
  "logs_persisted P s \<Longrightarrow> logs_persisted P (onclose P e cl s)"
  "lastProcessedCommandRef (onclose P e cl s) = lastProcessedCommandRef s"
  "timer_inv s \<Longrightarrow> timer_inv (onerror P e cl msg s)"
  "logs_persisted P s \<Longrightarrow> logs_persisted P (onerror P e cl msg s)"
  "lastProcessedCommandRef (onerror P e cl msg s) = lastProcessedCommandRef s"
  "timer_inv (onaudioprocess P cl chunk s) = timer_inv s"
  "logs_persisted P (onaudioprocess P cl chunk s) = logs_persisted P s"
  "lastProcessedCommandRef (onaudioprocess P cl chunk s) = lastProcessedCommandRef s"
  "timer_inv s \<Longrightarrow> timer_inv (sourceEnded h s)"
  "logs_persisted P (sourceEnded h s) = logs_persisted P s"
  "lastProcessedCommandRef (sourceEnded h s) = lastProcessedCommandRef s"
  by (simp_all add: onopen_def onclose_def onerror_def onaudioprocess_def sourceEnded_def Let_def)

lemma execCall_inv [simp]:
  "timer_inv s \<Longrightarrow> timer_inv (snd (execCall P e fc s))"
  "logs_persisted P s \<Longrightarrow> logs_persisted P (snd (execCall P e fc s))"
  "lastProcessedCommandRef (snd (execCall P e fc s)) = lastProcessedCommandRef s"
  by (cases fc; simp add: execCall_def)+

lemma toolLoop_inv [simp]:
  "timer_inv s \<Longrightarrow> timer_inv (snd (toolLoop P e fcs rs s))"
  "logs_persisted P s \<Longrightarrow> logs_persisted P (snd (toolLoop P e fcs rs s))"
  "lastProcessedCommandRef (snd (toolLoop P e fcs rs s)) = lastProcessedCommandRef s"
  by (induction fcs arbitrary: rs s; simp)+

lemma handleToolCall_inv [simp]:
  "timer_inv s \<Longrightarrow> timer_inv (handleToolCall P e fcs s)"
  "logs_persisted P (handleToolCall P e fcs s)"
  "lastProcessedCommandRef (handleToolCall P e fcs s) = lastProcessedCommandRef s"
  by (simp_all add: handleToolCall_def Let_def)

lemma commandFired_inv [simp]:
  "timer_inv (commandFired P e t s) = timer_inv s"
  "logs_persisted P (commandFired P e t s)"
  "lastProcessedCommandRef (commandFired P e t s) = now e"
  by (simp_all add: commandFired_def)

lemma checkLocalCommands_inv [simp]:
  "timer_inv s \<Longrightarrow> timer_inv (checkLocalCommands P e cl t s)"
  "logs_persisted P s \<Longrightarrow> logs_persisted P (checkLocalCommands P e cl t s)"
  "x \<le> lastProcessedCommandRef s \<Longrightarrow> x \<le> lastProcessedCommandRef (checkLocalCommands P e cl t s)"
  by (simp_all add: checkLocalCommands_def Let_def)

lemma message_parts_inv [simp]:
  "timer_inv s \<Longrightarrow> timer_inv (handleTranscription P e cl m s)"
  "logs_persisted P s \<Longrightarrow> logs_persisted P (handleTranscription P e cl m s)"
  "x \<le> lastProcessedCommandRef s \<Longrightarrow> x \<le> lastProcessedCommandRef (handleTranscription P e cl m s)"
  "timer_inv (handleTurnComplete P e s) = timer_inv s"
  "logs_persisted P s \<Longrightarrow> logs_persisted P (handleTurnComplete P e s)"
  "lastProcessedCommandRef (handleTurnComplete P e s) = lastProcessedCommandRef s"
  "timer_inv (handleAudio e m s) = timer_inv s"
  "logs_persisted P (handleAudio e m s) = logs_persisted P s"
  "lastProcessedCommandRef (handleAudio e m s) = lastProcessedCommandRef s"
  "timer_inv (handleInterrupted s) = timer_inv s"
  "logs_persisted P (handleInterrupted s) = logs_persisted P s"
  "lastProcessedCommandRef (handleInterrupted s) = lastProcessedCommandRef s"
  by (simp_all add: handleTranscription_def handleTurnComplete_def handleAudio_def playAudio_def
      handleInterrupted_def Let_def split: option.splits)

lemma onmessage_inv [simp]:
  "timer_inv s \<Longrightarrow> timer_inv (onmessage P e cl m s)"
  "logs_persisted P s \<Longrightarrow> logs_persisted P (onmessage P e cl m s)"
  "x \<le> lastProcessedCommandRef s \<Longrightarrow> x \<le> lastProcessedCommandRef (onmessage P e cl m s)"
  by (simp_all add: onmessage_def Let_def split: option.splits)

lemma fireTimer_inv [simp]:
  "timer_inv s \<Longrightarrow> timer_inv (fireTimer P e i s)"
  "logs_persisted P s \<Longrightarrow> logs_persisted P (fireTimer P e i s)"
  "lastProcessedCommandRef (fireTimer P e i s) = lastProcessedCommandRef s"
  by (simp_all add: fireTimer_def runCallback_def sendVideoFrame_def
      split: option.splits timer.splits timer_callback.splits)

lemma step_inv:
  "timer_inv s \<Longrightarrow> timer_inv (step P s ev)"
  "logs_persisted P s \<Longrightarrow> logs_persisted P (step P s ev)"
  "x \<le> lastProcessedCommandRef s \<Longrightarrow> x \<le> lastProcessedCommandRef (step P s ev)"
  by (cases ev; simp)+

lemma run_Nil: "run P [] s = s"
  by (simp add: run_def)

lemma run_Cons: "run P (ev # evs) s = run P evs (step P s ev)"
  by (simp add: run_def)

lemma run_timer_inv: "timer_inv s \<Longrightarrow> timer_inv (run P evs s)"
  by (induction evs arbitrary: s) (simp_all add: run_Nil run_Cons step_inv)

lemma run_logs_persisted: "logs_persisted P s \<Longrightarrow> logs_persisted P (run P evs s)"
  by (induction evs arbitrary: s) (simp_all add: run_Nil run_Cons step_inv)


lemma initial_inv:
  "timer_inv (initialApp P st)" "logs_persisted P (initialApp P st)"
  by (simp_all add: initialApp_def timer_inv_def timer_table_ok_def logs_persisted_def)

section \<open>Log persistence (claim C9)\<close>

lemma load_store: "\<forall>t. DateParse P (toISOString P t) = t \<Longrightarrow> loadLog P (storeLog P l) = l"
  by (cases l) (simp add: loadLog_def storeLog_def)

lemma loadLogs_persisted:
  "\<forall>t. DateParse P (toISOString P t) = t \<Longrightarrow> logs_persisted P s \<Longrightarrow> loadLogs P (localStorage s) = logs s"
  by (simp add: logs_persisted_def loadLogs_def load_store map_idI)

lemma appendEach_logs: "logs (appendEach P ls s) = logs s @ ls"
  unfolding appendEach_def by (induction ls arbitrary: s) (simp_all add: appendLogs_def)

lemma appendEach_persisted: "logs_persisted P s \<Longrightarrow> logs_persisted P (appendEach P ls s)"
  unfolding appendEach_def by (induction ls arbitrary: s) simp_all

lemma initial_logs: "logs (initialApp P st) = loadLogs P st"
  by (simp add: initialApp_def)

lemma digit_value: "d < 10 \<Longrightarrow> of_char (digit_char d) = 48 + d"
proof -
  assume "d < 10"
  then have "d \<in> {0, 1, 2, 3, 4, 5, 6, 7, 8, 9}" by auto
  then show ?thesis by (auto simp add: digit_char_def)
qed

lemma read_show_nat: "read_nat (show_nat n) = n"
proof (induction n rule: show_nat.induct)
  case (1 n)
  show ?case
  proof (cases "n < 10")
    case True
    then show ?thesis by (subst show_nat.simps) (simp add: read_nat_def digit_value)
  next
    case False
    have "read_nat (show_nat n) = 10 * read_nat (show_nat (n div 10)) + (of_char (digit_char (n mod 10)) - 48)"
      using False by (subst show_nat.simps) (simp add: read_nat_def)
    also have "\<dots> = 10 * (n div 10) + n mod 10"
      using 1 False by (simp add: digit_value)
    finally show ?thesis by simp
  qed
qed

lemma show_nat_not_minus: "show_nat n \<noteq> [] \<and> hd (show_nat n) \<noteq> CHR ''-''"
proof (induction n rule: show_nat.induct)
  case (1 n)
  show ?case
  proof (cases "n < 10")
    case True
    then have "n \<in> {0, 1, 2, 3, 4, 5, 6, 7, 8, 9}" by auto
    then show ?thesis by (subst (1 2) show_nat.simps) (auto simp add: digit_char_def)
  next
    case False
    then show ?thesis using 1 by (subst (1 2) show_nat.simps) simp
  qed
qed

lemma read_show_int: "read_int (show_int i) = i"
proof (cases "i < 0")
  case True
  then show ?thesis by (simp add: read_int_def show_int_def read_show_nat)
next
  case False
  obtain c r where cr: "show_nat (nat i) = c # r" "c \<noteq> CHR ''-''"
    using show_nat_not_minus [of "nat i"] by (cases "show_nat (nat i)") auto
  have "read_int (show_nat (nat i)) = int (read_nat (show_nat (nat i)))"
    using cr by (simp add: read_int_def)
  then show ?thesis using False by (simp add: show_int_def read_show_nat)
qed

lemma sample_codec: "\<forall>t. DateParse samplePlatform (toISOString samplePlatform t) = t"
  by (simp add: samplePlatform_def read_show_int)

text \<open>
  Claim C9. Let the date codec of the platform read back the time value it writes
  (\<open>new Date(d.toISOString())\<close> has the time value of \<open>d\<close>). Then appending a sequence of
  entries, each append persisting the whole array, and loading from storage gives the
  same entries in the same order, with equal timestamps (so equal to the second); a
  reload after appends to a stored log gives the stored entries followed by the
  appended ones; and after any run of events of the application, a reload gives the log
  of that moment: every mutation of the log is an append that persists the array.
\<close>

theorem log_round_trip:
  assumes "\<forall>t. DateParse P (toISOString P t) = t"
  shows "loadLogs P (localStorage (appendEach P ls (initialApp P Absent))) = ls
    \<and> map (\<lambda>l. timestamp l div 1000) (loadLogs P (localStorage (appendEach P ls (initialApp P Absent))))
        = map (\<lambda>l. timestamp l div 1000) ls
    \<and> logs (initialApp P (localStorage (appendEach P ls (initialApp P st)))) = logs (initialApp P st) @ ls
    \<and> logs (initialApp P (localStorage (run P evs (initialApp P st)))) = logs (run P evs (initialApp P st))"
proof -
  have a: "loadLogs P (localStorage (appendEach P ls (initialApp P st'))) = logs (initialApp P st') @ ls" for st'
    using loadLogs_persisted [OF assms appendEach_persisted [OF initial_inv(2)], of ls st']
    by (simp add: appendEach_logs)
  have b: "logs (initialApp P Absent) = []"
    by (simp add: initialApp_def loadLogs_def)
  have c: "loadLogs P (localStorage (run P evs (initialApp P st))) = logs (run P evs (initialApp P st))"
    using loadLogs_persisted [OF assms run_logs_persisted [OF initial_inv(2)]] .
  show ?thesis
    using a [of Absent] a [of st] b c by (simp add: initial_logs)
qed

theorem log_round_trip_witness:
  "loadLogs samplePlatform (localStorage (appendEach samplePlatform
      [sysLog sampleEnv ''one'', reportLog (sampleEnv\<lparr>now := 1700000001234\<rparr>) ''T'' ''body'']
      (initialApp samplePlatform Absent)))
    = [sysLog sampleEnv ''one'', reportLog (sampleEnv\<lparr>now := 1700000001234\<rparr>) ''T'' ''body'']"
  using log_round_trip [OF sample_codec,
      of "[sysLog sampleEnv ''one'', reportLog (sampleEnv\<lparr>now := 1700000001234\<rparr>) ''T'' ''body'']"]
  by simp

section \<open>Voice commands (claim C7)\<close>





lemma not_trigger: "\<not> voice_trigger t \<Longrightarrow> checkLocalCommands P e cl t s = s"
  by (auto simp add: checkLocalCommands_def voice_trigger_def Let_def)






section \<open>Reconnection (claim C2)\<close>

lemma map_of_filter_fst:
  "map_of (filter (\<lambda>p. fst p \<noteq> i) ts) k = (if k = i then None else map_of ts k)"
  by (induction ts) auto

lemma map_of_fresh: "list_all (\<lambda>p. fst p < (n::nat)) ts \<Longrightarrow> n \<le> k \<Longrightarrow> map_of ts k = None"
  by (induction ts) auto

lemma timer_inv_fresh: "timer_inv s \<Longrightarrow> nextTimerId s \<le> k \<Longrightarrow> map_of (timers s) k = None"
  by (auto simp add: timer_inv_def timer_table_ok_def intro: map_of_fresh)

lemma clearTimer_fields [simp]:
  "nextTimerId (clearTimer r s) = nextTimerId s"
  "reconnectTimeoutRef (clearTimer r s) = reconnectTimeoutRef s"
  "isManuallyDisconnectedRef (clearTimer r s) = isManuallyDisconnectedRef s"
  "map_of (timers (clearTimer r s)) k = (if r = Some k then None else map_of (timers s) k)"
  by (cases r; simp add: clearTimer_def map_of_filter_fst; fail)+

lemma reconnect_timers_le_one: "timer_inv s \<Longrightarrow> length (reconnect_timers s) \<le> 1"
proof -
  assume inv: "timer_inv s"
  let ?rs = "reconnect_timers s"
  have d: "distinct (map fst ?rs)"
    using inv by (simp add: timer_inv_def timer_table_ok_def reconnect_timers_def distinct_map_filter)
  have "set (map fst ?rs) \<subseteq> set_option (reconnectTimeoutRef s)"
    using inv by (auto simp add: timer_inv_def timer_table_ok_def reconnect_timers_def list_all_iff)
  then have "card (set (map fst ?rs)) \<le> card (set_option (reconnectTimeoutRef s))"
    by (intro card_mono) auto
  also have "\<dots> \<le> 1" by (cases "reconnectTimeoutRef s") auto
  finally have "card (set (map fst ?rs)) \<le> 1" .
  moreover have "card (set (map fst ?rs)) = length (map fst ?rs)"
    using d by (rule distinct_card)
  ultimately show ?thesis by simp
qed

lemma no_reconnect_after_clear:
  "timer_inv s \<Longrightarrow> filter (\<lambda>p. is_reconnect (snd p)) (timers (clearTimer (reconnectTimeoutRef s) s)) = []"
  by (cases "reconnectTimeoutRef s")
     (auto simp add: timer_inv_def timer_table_ok_def clearTimer_def list_all_iff filter_empty_conv)

lemma scheduleReconnect_timers:
  "timers (scheduleReconnect P e cl s) =
     timers (clearTimer (reconnectTimeoutRef s) s) @ [(nextTimerId s, Timeout RECONNECT_DELAY (ReconnectCb cl))]"
  "reconnectTimeoutRef (scheduleReconnect P e cl s) = Some (nextTimerId s)"
  "nextTimerId (scheduleReconnect P e cl s) = Suc (nextTimerId s)"
  by (simp_all add: scheduleReconnect_def Let_def setTimer_def appendLogs_def clearTimer_def split: option.splits)

lemma scheduleReconnect_reconnect_timers:
  "timer_inv s \<Longrightarrow>
   reconnect_timers (scheduleReconnect P e cl s) = [(nextTimerId s, Timeout RECONNECT_DELAY (ReconnectCb cl))]"
  by (simp add: reconnect_timers_def scheduleReconnect_timers no_reconnect_after_clear)

lemma onerror_fields:
  "\<not> isManuallyDisconnectedRef s \<Longrightarrow>
   onerror P e cl msg s = scheduleReconnect P e cl
     (playSystemSound snd_error (s\<lparr>errorMsg := Some (sessionErrorText msg), connectionState := ERROR\<rparr>))"
  by (simp add: onerror_def Let_def playSystemSound_def)

lemma scheduleReconnect_state [simp]:
  "connectionState (scheduleReconnect P e cl s) = connectionState s"
  by (simp add: scheduleReconnect_def Let_def setTimer_def appendLogs_def clearTimer_def split: option.splits)

lemma connectToGemini_timers:
  "timers (connectToGemini P e r cl s) =
     (if (apiKey e = None \<or> apiKey e = Some [] \<or> \<not> micOk e) \<and> \<not> (r \<and> isManuallyDisconnectedRef s)
      then timers (clearTimer (reconnectTimeoutRef s) s)
             @ [(nextTimerId s, Timeout RECONNECT_DELAY (ReconnectCb cl))]
      else timers (clearTimer (reconnectTimeoutRef s) s))"
  by (simp add: connectToGemini_def connectFailed_def scheduleReconnect_def Let_def prim_defs
      initializeAudioContexts_def split: option.splits)

lemma connect_clears:
  "reconnectTimeoutRef s = Some i \<Longrightarrow> i < nextTimerId s \<Longrightarrow>
   map_of (timers (connectToGemini P e r cl s)) i = None"
  by (simp add: connectToGemini_timers map_add_def)

lemma connect_keeps_cleared:
  "map_of (timers s) i = None \<Longrightarrow> i < nextTimerId s \<Longrightarrow>
   map_of (timers (connectToGemini P e r cl s)) i = None"
  by (simp add: connectToGemini_timers map_add_def)

lemma fire_absent: "map_of (timers s) i = None \<Longrightarrow> fireTimer P e i s = s"
  by (simp add: fireTimer_def)

text \<open>
  Claim C2. Let \<open>s\<close> be a state reached by any run of events from the first render, with
  the manual-disconnect flag not set, and let the session deliver an error event. Then
  the connection state becomes ERROR; the outstanding reconnect timers are exactly one,
  armed for 30000 ms and held by \<open>reconnectTimeoutRef\<close>; in every reachable state at most
  one reconnect timer is outstanding; firing the timer is one call of
  \<open>connectToGemini(true)\<close>, after which the timer is no longer outstanding, so that it
  does not fire again; and any call of \<open>connectToGemini\<close> made before it fires cancels it.
\<close>

theorem reconnect_after_error:
  assumes "s = run P evs (initialApp P st)" and "\<not> isManuallyDisconnectedRef s"
    and "s' = onerror P e cl msg s"
  shows "connectionState s' = ERROR
    \<and> reconnect_timers s' = [(nextTimerId s, Timeout 30000 (ReconnectCb cl))]
    \<and> reconnectTimeoutRef s' = Some (nextTimerId s)
    \<and> length (reconnect_timers s) \<le> 1
    \<and> fireTimer P e1 (nextTimerId s) s' = connectToGemini P e1 True cl (clearTimer (Some (nextTimerId s)) s')
    \<and> fireTimer P e2 (nextTimerId s) (fireTimer P e1 (nextTimerId s) s') = fireTimer P e1 (nextTimerId s) s'
    \<and> map_of (timers (connectToGemini P e1 r cl1 s')) (nextTimerId s) = None"
proof -
  let ?n = "nextTimerId s"
  let ?s0 = "playSystemSound snd_error (s\<lparr>errorMsg := Some (sessionErrorText msg), connectionState := ERROR\<rparr>)"
  have inv: "timer_inv s"
    unfolding assms(1) by (rule run_timer_inv) (rule initial_inv)
  have inv0: "timer_inv ?s0" using inv by simp
  have s': "s' = scheduleReconnect P e cl ?s0"
    using assms(2,3) by (simp add: onerror_fields)
  have n0: "nextTimerId ?s0 = ?n" by (simp add: playSystemSound_def)
  have st: "connectionState s' = ERROR"
    by (simp add: s' playSystemSound_def)
  have rt: "reconnect_timers s' = [(?n, Timeout 30000 (ReconnectCb cl))]"
    using scheduleReconnect_reconnect_timers [OF inv0, of P e cl] by (simp add: s' n0 RECONNECT_DELAY_def)
  have ref: "reconnectTimeoutRef s' = Some ?n" and nx: "nextTimerId s' = Suc ?n"
    by (simp_all add: s' scheduleReconnect_timers n0)
  have "map_of (timers ?s0) ?n = None"
    using timer_inv_fresh [OF inv0, of ?n] by (simp add: n0)
  then have look: "map_of (timers s') ?n = Some (Timeout 30000 (ReconnectCb cl))"
    by (simp add: s' scheduleReconnect_timers n0 map_add_def RECONNECT_DELAY_def)
  have fire: "fireTimer P e1 ?n s' = connectToGemini P e1 True cl (clearTimer (Some ?n) s')"
    by (simp add: fireTimer_def look runCallback_def)
  have "map_of (timers (clearTimer (Some ?n) s')) ?n = None"
    by simp
  then have gone: "map_of (timers (fireTimer P e1 ?n s')) ?n = None"
    unfolding fire by (rule connect_keeps_cleared) (simp add: nx)
  have again: "fireTimer P e2 ?n (fireTimer P e1 ?n s') = fireTimer P e1 ?n s'"
    using gone by (rule fire_absent)
  have cancel: "map_of (timers (connectToGemini P e1 r cl1 s')) ?n = None"
    using ref by (rule connect_clears) (simp add: nx)
  show ?thesis
    using st rt ref reconnect_timers_le_one [OF inv] fire again cancel by simp
qed

theorem reconnect_after_error_witness:
  "connectionState (onerror samplePlatform sampleEnv sampleClosure None
       (run samplePlatform [ToggleMute] (initialApp samplePlatform Absent))) = ERROR
   \<and> reconnect_timers (onerror samplePlatform sampleEnv sampleClosure None
       (run samplePlatform [ToggleMute] (initialApp samplePlatform Absent)))
     = [(1, Timeout 30000 (ReconnectCb sampleClosure))]"
proof -
  have a: "\<not> isManuallyDisconnectedRef (run samplePlatform [ToggleMute] (initialApp samplePlatform Absent))"
    by (simp add: run_def toggleMute_def playSystemSound_def initialApp_def)
  have b: "nextTimerId (run samplePlatform [ToggleMute] (initialApp samplePlatform Absent)) = 1"
    by (simp add: run_def toggleMute_def playSystemSound_def initialApp_def)
  show ?thesis
    using reconnect_after_error [OF refl a refl, of sampleEnv sampleClosure None] b
    by simp
qed

end
